theory Spec2Isabelle
  imports Main "HOL-Library.Char_ord" "HOL-Library.List_Lexorder" "HOL-Library.Sublist"
begin

section \<open>Strings\<close>

text \<open>
  A Python \<^verbatim>\<open>str\<close> is modelled as a \<^typ>\<open>string\<close>; one \<^typ>\<open>char\<close> stands for one code
  point below 256.  The helpers of this section are the string methods patch.py calls.
\<close>

definition dot :: char where
  "dot = CHR ''.''"

text \<open>\<^verbatim>\<open>s.split(c)\<close> for a one-character separator: never empty, one more piece than
  separators.\<close>

fun split_on :: "char \<Rightarrow> string \<Rightarrow> string list" where
  "split_on c [] = [[]]"
| "split_on c (x # xs) =
     (if x = c then [] # split_on c xs
      else (case split_on c xs of
              [] \<Rightarrow> [[x]]
            | p # ps \<Rightarrow> (x # p) # ps))"

definition bslash :: char where
  "bslash = CHR 0x5C"

definition dquote :: char where
  "dquote = CHR 0x22"

definition LF :: char where
  "LF = CHR 0x0A"

definition CR :: char where
  "CR = CHR 0x0D"

text \<open>\<^verbatim>\<open>s.lower()\<close>: below code point 256 the upper-case letters are \<open>A\<close> to \<open>Z\<close> and
  \<open>0xC0\<close> to \<open>0xDE\<close> without \<open>0xD7\<close>; each lies 32 below its lower-case letter.\<close>

definition lower_char :: "char \<Rightarrow> char" where
  "lower_char c =
     (let n = (of_char c :: nat)
      in if (65 \<le> n \<and> n \<le> 90) \<or> (192 \<le> n \<and> n \<le> 222 \<and> n \<noteq> 215)
         then char_of (n + 32) else c)"

definition lower :: "string \<Rightarrow> string" where
  "lower s = map lower_char s"

text \<open>\<^verbatim>\<open>s.strip()\<close> removes white space at both ends; below code point 256 the white-space
  characters are the ones listed.\<close>

definition whitespace :: "char \<Rightarrow> bool" where
  "whitespace c = ((of_char c :: nat) \<in> {9, 10, 11, 12, 13, 28, 29, 30, 31, 32, 133, 160})"

definition strip :: "string \<Rightarrow> string" where
  "strip s = rev (dropWhile whitespace (rev (dropWhile whitespace s)))"

text \<open>
  \<^verbatim>\<open>s.splitlines()\<close>: a line ends at each line boundary (a carriage return followed by a
  line feed is one boundary); the boundaries are dropped, and there is no empty last line
  after a final boundary.  \<open>after_cr\<close> says that the previous character was a carriage
  return, \<open>acc\<close> holds the current line in reverse.
\<close>

definition linebreak :: "char \<Rightarrow> bool" where
  "linebreak c = ((of_char c :: nat) \<in> {10, 11, 12, 13, 28, 29, 30, 133})"

fun split_lines :: "bool \<Rightarrow> string \<Rightarrow> string \<Rightarrow> string list" where
  "split_lines after_cr acc [] = (if acc = [] then [] else [rev acc])"
| "split_lines after_cr acc (c # cs) =
     (if after_cr \<and> c = LF then split_lines False acc cs
      else if linebreak c then rev acc # split_lines (c = CR) [] cs
      else split_lines False (c # acc) cs)"

definition splitlines :: "string \<Rightarrow> string list" where
  "splitlines s = split_lines False [] s"

text \<open>Reading a file in text mode turns \<^verbatim>\<open>\r\n\<close> and a lone \<^verbatim>\<open>\r\<close> into \<^verbatim>\<open>\n\<close>.\<close>

fun newlines_in :: "bool \<Rightarrow> string \<Rightarrow> string" where
  "newlines_in after_cr [] = []"
| "newlines_in after_cr (c # cs) =
     (if c = CR then LF # newlines_in True cs
      else if after_cr \<and> c = LF then newlines_in False cs
      else c # newlines_in False cs)"

definition universal_newlines :: "string \<Rightarrow> string" where
  "universal_newlines s = newlines_in False s"

text \<open>
  \<^verbatim>\<open>s.replace(old, new)\<close>: every occurrence of \<open>old\<close>, found from the left and not
  overlapping an earlier one, becomes \<open>new\<close>; an empty \<open>old\<close> occurs before every character
  and at the end.
\<close>

function py_replace :: "string \<Rightarrow> string \<Rightarrow> string \<Rightarrow> string" where
  "py_replace [] new s = new @ concat (map (\<lambda>c. c # new) s)"
| "py_replace (a # old) new [] = []"
| "py_replace (a # old) new (c # cs) =
     (if prefix (a # old) (c # cs)
      then new @ py_replace (a # old) new (drop (length old) cs)
      else c # py_replace (a # old) new cs)"
  by pat_completeness auto
termination
  by (relation "measure (\<lambda>(old, new, s). length s)") auto

section \<open>Versions\<close>

text \<open>
  \<^verbatim>\<open>
  def normalize_version(v: str) -> str:
      parts = v.split(".")
      if len(parts) == 2:
          return f"{parts[0]}.{parts[1]}.0"
      return v
  \<close>
\<close>

definition normalize_version :: "string \<Rightarrow> string" where
  "normalize_version v =
     (let parts = split_on dot v
      in if length parts = 2 then parts ! 0 @ ''.'' @ parts ! 1 @ ''.0'' else v)"

text \<open>\<^verbatim>\<open>\d\<close>: below code point 256 the decimal digits are \<open>0\<close> to \<open>9\<close>.\<close>

definition digit :: "char \<Rightarrow> bool" where
  "digit c = (CHR ''0'' \<le> c \<and> c \<le> CHR ''9'')"

text \<open>
  \<^verbatim>\<open>int(s)\<close> on a piece of a matched version.  Such a piece consists of digits; on a
  string of digits the conversion raises \<^verbatim>\<open>ValueError\<close> (here \<open>None\<close>) only beyond the
  interpreter's limit of 4300 digits.
\<close>

definition digit_val :: "char \<Rightarrow> int" where
  "digit_val c = int (of_char c) - 48"

definition digits_val :: "string \<Rightarrow> int" where
  "digits_val s = foldl (\<lambda>n c. 10 * n + digit_val c) 0 s"

definition py_int :: "string \<Rightarrow> int option" where
  "py_int s =
     (if s = [] \<or> \<not> list_all digit s \<or> 4300 < length s then None
      else Some (digits_val s))"

subsection \<open>The version patterns\<close>

text \<open>
  \<^verbatim>\<open>re.search\<close> tries the pattern at every position from the left, the end of the string
  included, and returns the first match.
\<close>

fun re_search :: "(string \<Rightarrow> 'a option) \<Rightarrow> string \<Rightarrow> 'a option" where
  "re_search m [] = m []"
| "re_search m (c # cs) = (case m (c # cs) of Some r \<Rightarrow> Some r | None \<Rightarrow> re_search m cs)"

text \<open>\<^verbatim>\<open>\d+\<close> at the head of a string: the digits taken and the rest.\<close>

definition digits1 :: "string \<Rightarrow> (string \<times> string) option" where
  "digits1 s =
     (let ds = takeWhile digit s
      in if ds = [] then None else Some (ds, dropWhile digit s))"

text \<open>
  \<^verbatim>\<open>\d+\.\d+(?:\.\d+)?\<close> at the head of a string: the matched text and the rest.  Each
  \<^verbatim>\<open>\d+\<close> is greedy and takes the whole run of digits; giving a digit back never helps,
  since what follows in the pattern is a dot, an underscore or the end of the pattern, and
  the character given back is a digit.  The optional group is taken when it matches; without
  it the next character is a dot, which neither the underscore that follows the first
  version nor a further piece of the pattern accepts.
\<close>

definition version_at :: "string \<Rightarrow> (string \<times> string) option" where
  "version_at s =
     (case digits1 s of
        None \<Rightarrow> None
      | Some (a, r1) \<Rightarrow>
          (case r1 of
             [] \<Rightarrow> None
           | c # r2 \<Rightarrow>
               if c \<noteq> dot then None
               else (case digits1 r2 of
                       None \<Rightarrow> None
                     | Some (b, r3) \<Rightarrow>
                         (case r3 of
                            [] \<Rightarrow> Some (a @ [dot] @ b, r3)
                          | d # r4 \<Rightarrow>
                              if d \<noteq> dot then Some (a @ [dot] @ b, r3)
                              else (case digits1 r4 of
                                      None \<Rightarrow> Some (a @ [dot] @ b, r3)
                                    | Some (p, r5) \<Rightarrow> Some (a @ [dot] @ b @ [dot] @ p, r5))))))"

text \<open>\<^verbatim>\<open>_(\d+\.\d+(?:\.\d+)?)_(\d+\.\d+(?:\.\d+)?)\<close> at the head of a string: the two groups.\<close>

definition pair_at :: "string \<Rightarrow> (string \<times> string) option" where
  "pair_at s =
     (case s of
        [] \<Rightarrow> None
      | u # r \<Rightarrow>
          if u \<noteq> CHR ''_'' then None
          else (case version_at r of
                  None \<Rightarrow> None
                | Some (v1, r1) \<Rightarrow>
                    (case r1 of
                       [] \<Rightarrow> None
                     | u' # r2 \<Rightarrow>
                         if u' \<noteq> CHR ''_'' then None
                         else (case version_at r2 of
                                 None \<Rightarrow> None
                               | Some (v2, r3) \<Rightarrow> Some (v1, v2)))))"

text \<open>
  \<^verbatim>\<open>
  def parse_from_to_versions_from_name(name: str):
      m = re.search(r"_(\d+\.\d+(?:\.\d+)?)_(\d+\.\d+(?:\.\d+)?)", name)
      if m:
          return normalize_version(m.group(1)), normalize_version(m.group(2))
      return None, None
  \<close>
\<close>

definition parse_from_to_versions_from_name :: "string \<Rightarrow> string option \<times> string option" where
  "parse_from_to_versions_from_name name =
     (case re_search pair_at name of
        Some (v1, v2) \<Rightarrow> (Some (normalize_version v1), Some (normalize_version v2))
      | None \<Rightarrow> (None, None))"

subsection \<open>The migration decision\<close>

text \<open>Python compares tuples lexicographically.\<close>

definition tuple_less :: "int \<times> int \<Rightarrow> int \<times> int \<Rightarrow> bool" where
  "tuple_less x y = (fst x < fst y \<or> (fst x = fst y \<and> snd x < snd y))"

text \<open>
  \<^verbatim>\<open>maj, min = map(int, v.split(".")[:2])\<close>: unpacking needs exactly two values and every
  \<^verbatim>\<open>int\<close> must succeed; anything else raises.
\<close>

definition major_minor :: "string \<Rightarrow> (int \<times> int) option" where
  "major_minor v =
     (case map py_int (take 2 (split_on dot v)) of
        [Some a, Some b] \<Rightarrow> Some (a, b)
      | _ \<Rightarrow> None)"

text \<open>
  Lines 241 to 250 of \<^verbatim>\<open>process_logical_archive\<close>:
  \<^verbatim>\<open>
      from_v, to_v = parse_from_to_versions_from_name(archive_name)
      needs_migration = False
      if from_v and to_v:
          try:
              fmaj, fmin = map(int, from_v.split(".")[:2])
              tmaj, tmin = map(int, to_v.split(".")[:2])
              if (fmaj, fmin) < (3, 6) and (tmaj, tmin) >= (3, 6):
                  needs_migration = True
          except:
              needs_migration = False
  \<close>
\<close>

definition needs_migration :: "string \<Rightarrow> bool" where
  "needs_migration archive_name =
     (case parse_from_to_versions_from_name archive_name of
        (Some from_v, Some to_v) \<Rightarrow>
          if from_v \<noteq> [] \<and> to_v \<noteq> [] then
            (case major_minor from_v of
               None \<Rightarrow> False
             | Some f \<Rightarrow>
                 (case major_minor to_v of
                    None \<Rightarrow> False
                  | Some t \<Rightarrow> tuple_less f (3, 6) \<and> \<not> tuple_less t (3, 6)))
          else False
      | _ \<Rightarrow> False)"

subsection \<open>Names that carry a version pair\<close>



section \<open>Names of archive parts\<close>

text \<open>\<^verbatim>\<open>$\<close> holds at the end of the string and before a line feed that ends the string.\<close>

definition at_end :: "string \<Rightarrow> bool" where
  "at_end s = (s = [] \<or> s = [LF])"

text \<open>\<^verbatim>\<open>\.(7z|zip|rar)\<close> at the head of a string: the rest after it.  The alternatives are
  tried in their order; they differ in their first character.\<close>

definition ext_at :: "string \<Rightarrow> string option" where
  "ext_at s =
     (if prefix ''.7z'' s then Some (drop 3 s)
      else if prefix ''.zip'' s then Some (drop 4 s)
      else if prefix ''.rar'' s then Some (drop 4 s)
      else None)"

text \<open>\<^verbatim>\<open>\.0*1$\<close> at the head of a string.  \<^verbatim>\<open>0*\<close> takes every zero; a zero given back
  would have to be the \<open>1\<close>.\<close>

definition first_number_at :: "string \<Rightarrow> bool" where
  "first_number_at s =
     (case s of
        [] \<Rightarrow> False
      | c # r \<Rightarrow>
          c = dot \<and>
          (case dropWhile (\<lambda>x. x = CHR ''0'') r of
             [] \<Rightarrow> False
           | d # r' \<Rightarrow> d = CHR ''1'' \<and> at_end r'))"

text \<open>\<^verbatim>\<open>\.0*\d+$\<close> at the head of a string.  The end must follow the digits, so the two
  pieces share the whole run of digits between them, and any non-empty run can be shared:
  \<^verbatim>\<open>0*\<close> gives its last zero back when nothing else is left for \<^verbatim>\<open>\d+\<close>.\<close>

definition number_at :: "string \<Rightarrow> bool" where
  "number_at s =
     (case s of
        [] \<Rightarrow> False
      | c # r \<Rightarrow>
          c = dot \<and> (case digits1 r of None \<Rightarrow> False | Some (ds, r') \<Rightarrow> at_end r'))"

text \<open>\<^verbatim>\<open>\.part\d+\.rar$\<close> at the head of a string.\<close>

definition part_rar_at :: "string \<Rightarrow> bool" where
  "part_rar_at s =
     (prefix ''.part'' s \<and>
      (case digits1 (drop 5 s) of
         None \<Rightarrow> False
       | Some (ds, r) \<Rightarrow> prefix ''.rar'' r \<and> at_end (drop 4 r)))"

text \<open>The result of \<^verbatim>\<open>re.search\<close> as a truth value.\<close>

definition re_found :: "(string \<Rightarrow> bool) \<Rightarrow> string \<Rightarrow> bool" where
  "re_found m s = (re_search (\<lambda>t. if m t then Some () else None) s \<noteq> None)"

text \<open>
  \<^verbatim>\<open>
  def is_multipart_first(p: Path) -> bool:
      name = p.name.lower()
      if re.search(r"\.(7z|zip|rar)\.0*1$", name):
          return True
      if name.endswith(".part1.rar"):
          return True
      return False
  \<close>
  The argument of the model is \<^verbatim>\<open>p.name\<close>.
\<close>

definition is_multipart_first :: "string \<Rightarrow> bool" where
  "is_multipart_first pname =
     (let name = lower pname
      in if re_found (\<lambda>t. case ext_at t of None \<Rightarrow> False | Some r \<Rightarrow> first_number_at r) name
         then True
         else if suffix ''.part1.rar'' name then True
         else False)"

text \<open>
  \<^verbatim>\<open>
  def is_part_file_name(name: str) -> bool:
      ln = name.lower()
      if re.search(r"\.(7z|zip|rar)\.0*1$", ln):
          return True
      if ln.endswith(".part1.rar"):
          return True
      if re.search(r"\.(7z|zip|rar)\.0*\d+$", ln):
          return True
      if re.search(r"\.part\d+\.rar$", ln):
          return True
      return False
  \<close>
\<close>

definition is_part_file_name :: "string \<Rightarrow> bool" where
  "is_part_file_name name =
     (let ln = lower name
      in if re_found (\<lambda>t. case ext_at t of None \<Rightarrow> False | Some r \<Rightarrow> first_number_at r) ln
         then True
         else if suffix ''.part1.rar'' ln then True
         else if re_found (\<lambda>t. case ext_at t of None \<Rightarrow> False | Some r \<Rightarrow> number_at r) ln
         then True
         else if re_found part_rar_at ln then True
         else False)"

text \<open>
  \<^verbatim>\<open>^(.*\.(?:7z|zip|rar))\.0*1$\<close>: the group.  \<^verbatim>\<open>.*\<close> takes characters other than the line
  feed and is greedy: the longest stretch after which the rest of the pattern matches wins.
  \<open>dot_star m s\<close> is that stretch together with what \<open>m\<close> returns for the rest.
\<close>

fun dot_star :: "(string \<Rightarrow> 'a option) \<Rightarrow> string \<Rightarrow> (string \<times> 'a) option" where
  "dot_star m [] = (case m [] of None \<Rightarrow> None | Some r \<Rightarrow> Some ([], r))"
| "dot_star m (c # cs) =
     (case (if c = LF then None else dot_star m cs) of
        Some (t, r) \<Rightarrow> Some (c # t, r)
      | None \<Rightarrow> (case m (c # cs) of None \<Rightarrow> None | Some r \<Rightarrow> Some ([], r)))"

definition first_part_group :: "string \<Rightarrow> string option" where
  "first_part_group s =
     (case dot_star (\<lambda>t. case ext_at t of
                            None \<Rightarrow> None
                          | Some r \<Rightarrow> if first_number_at r then Some (take (length t - length r) t)
                                      else None) s of
        None \<Rightarrow> None
      | Some (t, e) \<Rightarrow> Some (t @ e))"

text \<open>
  \<^verbatim>\<open>
  def logical_name_from_first(first: Path) -> str:
      name = first.name
      lower = name.lower()
      m = re.search(r"^(.*\.(?:7z|zip|rar))\.0*1$", lower)
      if m:
          return m.group(1)
      if lower.endswith(".part1.rar"):
          return first.name
      return first.name
  \<close>
\<close>

definition logical_name_from_first :: "string \<Rightarrow> string" where
  "logical_name_from_first name =
     (case first_part_group (lower name) of
        Some g \<Rightarrow> g
      | None \<Rightarrow> if suffix ''.part1.rar'' (lower name) then name else name)"

section \<open>File-name patterns\<close>

text \<open>
  A shell pattern against a name: \<open>*\<close> stands for any stretch of characters, \<open>?\<close> for one
  character, any other character for itself.  Character classes in brackets are not
  modelled: what is stated about a pattern below is stated for patterns without \<open>[\<close>.  The
  tool runs on Windows (it starts \<^verbatim>\<open>7z.exe\<close> and \<^verbatim>\<open>hpatchz.exe\<close> and writes backslashes
  into its manifests), where pattern and name are compared without regard to case.
\<close>

fun wild_match :: "string \<Rightarrow> string \<Rightarrow> bool" where
  "wild_match [] s = (s = [])"
| "wild_match (p # ps) [] = (p = CHR ''*'' \<and> wild_match ps [])"
| "wild_match (p # ps) (c # cs) =
     (if p = CHR ''*'' then wild_match ps (c # cs) \<or> wild_match (p # ps) cs
      else (p = CHR ''?'' \<or> p = c) \<and> wild_match ps cs)"

definition fnmatch :: "string \<Rightarrow> string \<Rightarrow> bool" where
  "fnmatch pat name = wild_match (lower pat) (lower name)"

section \<open>The file system\<close>

text \<open>
  A path is the list of its components, relative to the working directory; the empty list
  is the working directory itself, which is what \<^verbatim>\<open>Path("")\<close> and \<^verbatim>\<open>Path(".")\<close> denote.  Two
  paths are the same file when their components agree up to case; aliases through \<open>..\<close>,
  links or drives are not modelled.

  A file has its text and two attributes.  \<open>readonly\<close> is the read-only attribute that
  \<^verbatim>\<open>chmod\<close> sets and clears: a read-only file can be neither written nor deleted.  \<open>held\<close>
  says that the operating system refuses to delete the file whatever its attributes are
  (another process holds it open): the program can do nothing about it.
\<close>

type_synonym path = "string list"

datatype node = File (content: string) (readonly: bool) (held: bool) | Dir

type_synonym filesys = "(path \<times> node) list"

definition fold_case :: "path \<Rightarrow> path" where
  "fold_case p = map lower p"

definition lookup :: "filesys \<Rightarrow> path \<Rightarrow> node option" where
  "lookup fs p = map_of (map (\<lambda>(q, n). (fold_case q, n)) fs) (fold_case p)"

definition exists :: "filesys \<Rightarrow> path \<Rightarrow> bool" where
  "exists fs p = (p = [] \<or> lookup fs p \<noteq> None)"

definition is_file :: "filesys \<Rightarrow> path \<Rightarrow> bool" where
  "is_file fs p = (p \<noteq> [] \<and> (case lookup fs p of Some (File c r h) \<Rightarrow> True | _ \<Rightarrow> False))"

definition is_dir :: "filesys \<Rightarrow> path \<Rightarrow> bool" where
  "is_dir fs p = (p = [] \<or> lookup fs p = Some Dir)"

text \<open>\<open>below p q\<close>: \<open>q\<close> is \<open>p\<close> or lies in the tree under \<open>p\<close>.\<close>

definition below :: "path \<Rightarrow> path \<Rightarrow> bool" where
  "below p q = prefix (fold_case p) (fold_case q)"

definition strictly_below :: "path \<Rightarrow> path \<Rightarrow> bool" where
  "strictly_below p q = strict_prefix (fold_case p) (fold_case q)"

text \<open>
  \<^verbatim>\<open>Path(s)\<close> on Windows: both slashes separate components, empty components and \<open>.\<close>
  are dropped; a leading separator makes the path start at the root, kept as a first
  component of its own.
\<close>

definition is_sep :: "char \<Rightarrow> bool" where
  "is_sep c = (c = bslash \<or> c = CHR ''/'')"

fun split_seps :: "string \<Rightarrow> string list" where
  "split_seps [] = [[]]"
| "split_seps (x # xs) =
     (if is_sep x then [] # split_seps xs
      else (case split_seps xs of
              [] \<Rightarrow> [[x]]
            | p # ps \<Rightarrow> (x # p) # ps))"

definition parse_path :: "string \<Rightarrow> path" where
  "parse_path s =
     (if s \<noteq> [] \<and> is_sep (hd s) then [[bslash]] else [])
     @ filter (\<lambda>c. c \<noteq> [] \<and> c \<noteq> ''.'') (split_seps s)"

subsection \<open>Operations that can fail\<close>

text \<open>Each returns \<open>None\<close> where the Python call raises \<^verbatim>\<open>OSError\<close>.\<close>

definition remove_entry :: "path \<Rightarrow> filesys \<Rightarrow> filesys" where
  "remove_entry p fs = filter (\<lambda>(q, n). fold_case q \<noteq> fold_case p) fs"

text \<open>\<^verbatim>\<open>p.unlink()\<close>: the path must be a file that is neither read-only nor held.\<close>

definition unlink :: "path \<Rightarrow> filesys \<Rightarrow> filesys option" where
  "unlink p fs =
     (if p = [] then None
      else (case lookup fs p of
              Some (File c r h) \<Rightarrow> if r \<or> h then None else Some (remove_entry p fs)
            | _ \<Rightarrow> None))"

text \<open>\<^verbatim>\<open>p.rmdir()\<close>: the path must be a directory with nothing in it.\<close>

definition rmdir :: "path \<Rightarrow> filesys \<Rightarrow> filesys option" where
  "rmdir p fs =
     (if p \<noteq> [] \<and> lookup fs p = Some Dir \<and> \<not> list_ex (\<lambda>(q, n). strictly_below p q) fs
      then Some (remove_entry p fs) else None)"

text \<open>\<^verbatim>\<open>p.read_text(...)\<close>: the path must be a file.\<close>

definition read_text :: "filesys \<Rightarrow> path \<Rightarrow> string option" where
  "read_text fs p =
     (if p = [] then None
      else (case lookup fs p of
              Some (File c r h) \<Rightarrow> Some (universal_newlines c)
            | _ \<Rightarrow> None))"

text \<open>\<^verbatim>\<open>p.write_text(text, newline="\n")\<close>: a new file is created, an old one must be
  writable; the text is written as it is.\<close>

definition write_text :: "path \<Rightarrow> string \<Rightarrow> filesys \<Rightarrow> filesys option" where
  "write_text p text fs =
     (if p = [] then None
      else (case lookup fs p of
              None \<Rightarrow> Some (fs @ [(p, File text False False)])
            | Some (File c r h) \<Rightarrow>
                if r then None
                else Some (map (\<lambda>(q, n). if fold_case q = fold_case p then (q, File text False h)
                                         else (q, n)) fs)
            | Some Dir \<Rightarrow> None))"

subsection \<open>Operations that cannot fail\<close>

text \<open>\<^verbatim>\<open>p.chmod(stat.S_IWRITE | stat.S_IREAD)\<close> inside \<^verbatim>\<open>try ... except: pass\<close>: clears the
  read-only attribute of a file.\<close>

definition clear_readonly :: "node \<Rightarrow> node" where
  "clear_readonly n = (case n of File c r h \<Rightarrow> File c False h | Dir \<Rightarrow> Dir)"

definition chmod_writable :: "path \<Rightarrow> filesys \<Rightarrow> filesys" where
  "chmod_writable p fs =
     map (\<lambda>(q, n). if fold_case q = fold_case p then (q, clear_readonly n) else (q, n)) fs"

text \<open>
  \<^verbatim>\<open>shutil.rmtree(p, ignore_errors=True)\<close> on a directory: every file under \<open>p\<close> that can be
  deleted is deleted, and every directory under \<open>p\<close>, \<open>p\<close> included, that is empty after
  that.  The working directory itself is never removed.
\<close>

definition undeletable :: "node \<Rightarrow> bool" where
  "undeletable n = (case n of File c r h \<Rightarrow> r \<or> h | Dir \<Rightarrow> False)"

definition stays :: "filesys \<Rightarrow> path \<Rightarrow> bool" where
  "stays fs q = list_ex (\<lambda>(q', n'). below q q' \<and> undeletable n') fs"

definition rmtree :: "path \<Rightarrow> filesys \<Rightarrow> filesys" where
  "rmtree p fs = filter (\<lambda>(q, n). \<not> below p q \<or> stays fs q) fs"

text \<open>A file that the operating system refuses to delete.\<close>

definition held_file :: "node \<Rightarrow> bool" where
  "held_file n = (case n of File c r h \<Rightarrow> h | Dir \<Rightarrow> False)"


subsection \<open>Listing\<close>

text \<open>\<^verbatim>\<open>p.name\<close>: the last component, and the empty string for the working directory.\<close>

definition name_of :: "path \<Rightarrow> string" where
  "name_of p = (if p = [] then [] else last p)"

text \<open>The entries of the working directory have one component.\<close>

definition iterdir_cwd :: "filesys \<Rightarrow> path list" where
  "iterdir_cwd fs = map fst (filter (\<lambda>(q, n). length q = 1) fs)"

text \<open>\<^verbatim>\<open>Path.cwd().glob(pat)\<close> for a pattern without a separator: the entries of the working
  directory whose name matches.\<close>

definition path_glob :: "string \<Rightarrow> filesys \<Rightarrow> path list" where
  "path_glob pat fs = filter (\<lambda>q. fnmatch pat (name_of q)) (iterdir_cwd fs)"

text \<open>\<^verbatim>\<open>glob.glob(pat)\<close>: the names of these entries; a name with a leading dot matches
  only a pattern with a leading dot.\<close>

definition glob_glob :: "string \<Rightarrow> filesys \<Rightarrow> string list" where
  "glob_glob pat fs =
     map name_of (filter (\<lambda>q. fnmatch pat (name_of q) \<and> (prefix ''.'' pat \<or> \<not> prefix ''.'' (name_of q)))
                 (iterdir_cwd fs))"

text \<open>\<^verbatim>\<open>p.rglob(pat)\<close>: everything in the tree under \<open>p\<close> whose name matches.\<close>

definition rglob :: "path \<Rightarrow> string \<Rightarrow> filesys \<Rightarrow> path list" where
  "rglob p pat fs = map fst (filter (\<lambda>(q, n). strictly_below p q \<and> fnmatch pat (name_of q)) fs)"

section \<open>The state of a run\<close>

text \<open>
  What a run can change or leave behind: the files, the lines it logs, and the external
  programs it starts.  A function of patch.py becomes a function from the state before to a
  result and the state after; the result is the exception that left the function (\<open>Inl\<close>) or
  the value it returned (\<open>Inr\<close>).
\<close>

datatype exn = SystemExit nat | CalledProcessError nat | OSError

datatype level = INFO | WARNING | ERROR

datatype message =
    DetectedGameFolder string
  | NoGameFolder
  | ToolMissing string
  | DeletedFile path
  | DeletedTree path
  | FailedToDelete path
  | HpatchzFailed string
  | Patched string
  | ProcessingMultipart string
  | FailedExtractMultipart path
  | MigrationIncomplete
  | ErrorProcessingMultipart path
  | ProcessingArchive string
  | FailedExtract path
  | GameVersionNotDetected
  | AudioMigrationCompleted
  | DeletedTreeFlex path
  | PatchingFinished

datatype call = Call7z path | CallHpatchz path path

record world =
  files :: filesys
  logged :: "(level \<times> message) list"
  calls :: "call list"

type_synonym 'a outcome = "(exn + 'a) \<times> world"

definition say :: "level \<Rightarrow> message \<Rightarrow> world \<Rightarrow> world" where
  "say l m w = w\<lparr>logged := logged w @ [(l, m)]\<rparr>"

text \<open>
  What the program does not contain is a parameter: the two external programs, each a
  function from its arguments and the files to how the process ended and the files it left;
  the JSON parser, reduced to the field the program reads; and the relocation of the audio
  tree.  Every statement below holds for all of them.
\<close>

datatype proc = Exited nat | NotStarted

record tools =
  run_7z :: "path \<Rightarrow> filesys \<Rightarrow> proc \<times> filesys"
  run_hpatchz :: "path \<Rightarrow> path \<Rightarrow> filesys \<Rightarrow> proc \<times> filesys"
  json_variance :: "string \<Rightarrow> string option"
  relocate_audio :: "path \<Rightarrow> filesys \<Rightarrow> bool \<times> filesys"

definition GAME_FOLDERS :: "string list" where
  "GAME_FOLDERS = [''GenshinImpact_Data'', ''StarRail_Data'', ''ZenlessZoneZero_Data'', ''Client'']"

definition TOOLS :: "string list" where
  "TOOLS = [''7z.exe'', ''hpatchz.exe'']"

text \<open>
  \<^verbatim>\<open>
  def detect_game_folder() -> Path:
      for folder in GAME_FOLDERS:
          path = Path(folder)
          if path.is_dir():
              log.info(f"Detected game folder: {folder}")
              return path
      log.error(f"No supported game folder found. ...")
      sys.exit(1)
  \<close>
\<close>

fun detect_in :: "string list \<Rightarrow> world \<Rightarrow> path outcome" where
  "detect_in [] w = (Inl (SystemExit 1), say ERROR NoGameFolder w)"
| "detect_in (folder # rest) w =
     (if is_dir (files w) [folder] then (Inr [folder], say INFO (DetectedGameFolder folder) w)
      else detect_in rest w)"

definition detect_game_folder :: "world \<Rightarrow> path outcome" where
  "detect_game_folder w = detect_in GAME_FOLDERS w"

text \<open>
  \<^verbatim>\<open>
  def check_tools():
      for tool in TOOLS:
          if not Path(tool).exists():
              log.error(f"{tool} is missing.")
              sys.exit(1)
  \<close>
\<close>

fun check_in :: "string list \<Rightarrow> world \<Rightarrow> unit outcome" where
  "check_in [] w = (Inr (), w)"
| "check_in (tool # rest) w =
     (if \<not> exists (files w) [tool] then (Inl (SystemExit 1), say ERROR (ToolMissing tool) w)
      else check_in rest w)"

definition check_tools :: "world \<Rightarrow> unit outcome" where
  "check_tools w = check_in TOOLS w"

text \<open>
  \<^verbatim>\<open>
  def ensure_writable(path: Path):
      if not path.exists():
          return
      try:
          attrs = path.stat().st_mode
          if not (attrs & stat.S_IWRITE):
              path.chmod(attrs | stat.S_IWRITE)
      except:
          pass
  \<close>
\<close>

definition ensure_writable :: "path \<Rightarrow> world \<Rightarrow> world" where
  "ensure_writable p w =
     (if \<not> exists (files w) p then w
      else (case lookup (files w) p of
              Some (File c r h) \<Rightarrow> if r then w\<lparr>files := chmod_writable p (files w)\<rparr> else w
            | _ \<Rightarrow> w))"

text \<open>
  \<^verbatim>\<open>
  def make_writable_recursive(path: Path):
      if not path.exists():
          return
      if path.is_file():
          try: path.chmod(stat.S_IWRITE | stat.S_IREAD)
          except: pass
          return
      for p in path.rglob("*"):
          try: p.chmod(stat.S_IWRITE | stat.S_IREAD)
          except: pass
      try: path.chmod(stat.S_IWRITE | stat.S_IREAD)
      except: pass
  \<close>
\<close>

definition make_writable_recursive :: "path \<Rightarrow> world \<Rightarrow> world" where
  "make_writable_recursive p w =
     (if \<not> exists (files w) p then w
      else if is_file (files w) p then w\<lparr>files := chmod_writable p (files w)\<rparr>
      else w\<lparr>files := chmod_writable p (fold chmod_writable (rglob p ''*'' (files w)) (files w))\<rparr>)"

section \<open>Manifests\<close>

text \<open>
  \<^verbatim>\<open>
  def replace_text_in_file(filepath: Path):
      if not filepath.exists():
          return
      text = filepath.read_text(encoding="utf-8")
      text = text.replace('{"remoteName": "', '').replace('"}', '').replace('/', '\\')
      filepath.write_text(text, encoding="utf-8", newline="\n")
  \<close>
\<close>

definition wrapper_open :: string where
  "wrapper_open = ''{'' @ [dquote] @ ''remoteName'' @ [dquote] @ '': '' @ [dquote]"

definition wrapper_close :: string where
  "wrapper_close = [dquote] @ ''}''"

definition replace_text :: "string \<Rightarrow> string" where
  "replace_text text =
     py_replace ''/'' [bslash] (py_replace wrapper_close [] (py_replace wrapper_open [] text))"

definition replace_text_in_file :: "path \<Rightarrow> world \<Rightarrow> unit outcome" where
  "replace_text_in_file filepath w =
     (if \<not> exists (files w) filepath then (Inr (), w)
      else (case read_text (files w) filepath of
              None \<Rightarrow> (Inl OSError, w)
            | Some text \<Rightarrow>
                (case write_text filepath (replace_text text) (files w) of
                   None \<Rightarrow> (Inl OSError, w)
                 | Some fs' \<Rightarrow> (Inr (), w\<lparr>files := fs'\<rparr>))))"

text \<open>\<^verbatim>\<open>try: p.unlink()\<close> with \<^verbatim>\<open>except: pass\<close>.\<close>

definition try_unlink :: "path \<Rightarrow> world \<Rightarrow> world" where
  "try_unlink p w = (case unlink p (files w) of Some fs' \<Rightarrow> w\<lparr>files := fs'\<rparr> | None \<Rightarrow> w)"

text \<open>
  \<^verbatim>\<open>
  def delete_files():
      delete_txt = Path("deletefiles.txt")
      if not delete_txt.exists():
          return
      replace_text_in_file(delete_txt)
      for line in delete_txt.read_text(encoding="utf-8").splitlines():
          target = Path(line.strip())
          if not target.exists():
              continue
          make_writable_recursive(target)
          try:
              if target.is_file():
                  target.unlink()
                  log.info(f"Deleted file: {target}")
              elif target.is_dir():
                  shutil.rmtree(target, ignore_errors=True)
                  log.info(f"Deleted directory tree: {target}")
          except Exception as e:
              log.warning(f"Failed to delete {target}: {e}")
      try:
          delete_txt.unlink()
      except:
          pass
  \<close>
  \<open>delete_entry\<close> is the body of the loop for one line.
\<close>

definition delete_txt :: path where
  "delete_txt = [''deletefiles.txt'']"

definition delete_entry :: "string \<Rightarrow> world \<Rightarrow> world" where
  "delete_entry line w =
     (let target = parse_path (strip line)
      in if \<not> exists (files w) target then w
         else (let w1 = make_writable_recursive target w
               in if is_file (files w1) target then
                    (case unlink target (files w1) of
                       Some fs' \<Rightarrow> say INFO (DeletedFile target) (w1\<lparr>files := fs'\<rparr>)
                     | None \<Rightarrow> say WARNING (FailedToDelete target) w1)
                  else if is_dir (files w1) target then
                    say INFO (DeletedTree target) (w1\<lparr>files := rmtree target (files w1)\<rparr>)
                  else w1))"

definition delete_files :: "world \<Rightarrow> unit outcome" where
  "delete_files w =
     (if \<not> exists (files w) delete_txt then (Inr (), w)
      else (case replace_text_in_file delete_txt w of
              (Inl e, w1) \<Rightarrow> (Inl e, w1)
            | (Inr u, w1) \<Rightarrow>
                (case read_text (files w1) delete_txt of
                   None \<Rightarrow> (Inl OSError, w1)
                 | Some text \<Rightarrow>
                     (Inr (), try_unlink delete_txt (fold delete_entry (splitlines text) w1)))))"

text \<open>
  \<^verbatim>\<open>
  def apply_hdiff() -> bool:
      hdifffiles_txt = Path("hdifffiles.txt")
      if not hdifffiles_txt.exists():
          return False
      replace_text_in_file(hdifffiles_txt)
      patched = False
      for line in hdifffiles_txt.read_text(encoding="utf-8").splitlines():
          target = line.strip()
          if not target:
              continue
          original_file = Path(target)
          hdiff = Path(f"{target}.hdiff")
          if not hdiff.exists():
              continue
          ensure_writable(original_file)
          try:
              subprocess.run([hpatchz, "-f", target, hdiff, target], check=True)
              patched = True
          except subprocess.CalledProcessError as e:
              log.error(f"hpatchz failed for {target}: {e}")
              raise
          try:
              hdiff.unlink()
          except:
              pass
          log.info(f"Patched: {target}")
      try:
          hdifffiles_txt.unlink()
      except:
          pass
      return patched
  \<close>
  \<open>hdiff_entry\<close> is the body of the loop for one line: it returns whether the line was
  patched (\<open>False\<close> where the body says \<^verbatim>\<open>continue\<close>), or the exception that leaves the loop.
  A process that cannot be started raises \<^verbatim>\<open>OSError\<close>, which the \<^verbatim>\<open>except\<close> clause does not
  catch.
\<close>

definition hdifffiles_txt :: path where
  "hdifffiles_txt = [''hdifffiles.txt'']"

definition hdiff_entry :: "tools \<Rightarrow> string \<Rightarrow> world \<Rightarrow> bool outcome" where
  "hdiff_entry T line w =
     (let target = strip line
      in if target = [] then (Inr False, w)
         else (let original_file = parse_path target;
                   hdiff = parse_path (target @ ''.hdiff'')
               in if \<not> exists (files w) hdiff then (Inr False, w)
                  else (let w1 = ensure_writable original_file w;
                            (r, fs2) = run_hpatchz T original_file hdiff (files w1);
                            w2 = w1\<lparr>files := fs2,
                                    calls := calls w1 @ [CallHpatchz original_file hdiff]\<rparr>
                        in case r of
                             Exited n \<Rightarrow>
                               if n = 0
                               then (Inr True, say INFO (Patched target) (try_unlink hdiff w2))
                               else (Inl (CalledProcessError n), say ERROR (HpatchzFailed target) w2)
                           | NotStarted \<Rightarrow> (Inl OSError, w2))))"

fun hdiff_loop :: "tools \<Rightarrow> string list \<Rightarrow> bool \<Rightarrow> world \<Rightarrow> bool outcome" where
  "hdiff_loop T [] patched w = (Inr patched, w)"
| "hdiff_loop T (line # rest) patched w =
     (case hdiff_entry T line w of
        (Inl e, w') \<Rightarrow> (Inl e, w')
      | (Inr b, w') \<Rightarrow> hdiff_loop T rest (patched \<or> b) w')"

definition apply_hdiff :: "tools \<Rightarrow> world \<Rightarrow> bool outcome" where
  "apply_hdiff T w =
     (if \<not> exists (files w) hdifffiles_txt then (Inr False, w)
      else (case replace_text_in_file hdifffiles_txt w of
              (Inl e, w1) \<Rightarrow> (Inl e, w1)
            | (Inr u, w1) \<Rightarrow>
                (case read_text (files w1) hdifffiles_txt of
                   None \<Rightarrow> (Inl OSError, w1)
                 | Some text \<Rightarrow>
                     (case hdiff_loop T (splitlines text) False w1 of
                        (Inl e, w2) \<Rightarrow> (Inl e, w2)
                      | (Inr patched, w2) \<Rightarrow> (Inr patched, try_unlink hdifffiles_txt w2)))))"

section \<open>Archives\<close>

text \<open>
  \<^verbatim>\<open>
  def extract_with_7z(archive: Path):
      subprocess.run([str(Path("7z.exe").resolve()), "x", str(archive), "-o.", "-y"], check=True)
  \<close>
\<close>

definition extract_with_7z :: "tools \<Rightarrow> path \<Rightarrow> world \<Rightarrow> unit outcome" where
  "extract_with_7z T archive w =
     (let (r, fs') = run_7z T archive (files w);
          w' = w\<lparr>files := fs', calls := calls w @ [Call7z archive]\<rparr>
      in case r of
           Exited n \<Rightarrow> if n = 0 then (Inr (), w') else (Inl (CalledProcessError n), w')
         | NotStarted \<Rightarrow> (Inl OSError, w'))"

text \<open>
  \<^verbatim>\<open>
  def get_multipart_first_parts() -> list[Path]:
      out = []
      for p in Path.cwd().iterdir():
          if not p.is_file():
              continue
          if is_multipart_first(p):
              out.append(p)
      return sorted(out, key=lambda p: p.name)
  \<close>
\<close>

definition get_multipart_first_parts :: "filesys \<Rightarrow> path list" where
  "get_multipart_first_parts fs =
     sort_key name_of (filter (\<lambda>p. is_file fs p \<and> is_multipart_first (name_of p)) (iterdir_cwd fs))"

text \<open>
  \<^verbatim>\<open>
  def collect_parts_for_first(first: Path) -> list[Path]:
      name = first.name
      lower = name.lower()
      parts = []
      m = re.search(r"^(.*\.(?:7z|zip|rar))\.0*1$", lower)
      if m:
          prefix = m.group(1)
          for candidate in Path.cwd().glob(prefix + ".*"):
              parts.append(candidate)
          return sorted(parts, key=lambda p: p.name)
      if lower.endswith(".part1.rar"):
          prefix = name[: -len(".part1.rar")]
          for candidate in Path.cwd().glob(prefix + ".part*.rar"):
              parts.append(candidate)
          return sorted(parts, key=lambda p: p.name)
      return [first]
  \<close>
\<close>

definition collect_parts_for_first :: "path \<Rightarrow> filesys \<Rightarrow> path list" where
  "collect_parts_for_first first fs =
     (let name = name_of first
      in case first_part_group (lower name) of
           Some prfx \<Rightarrow> sort_key name_of (path_glob (prfx @ ''.*'') fs)
         | None \<Rightarrow>
             if suffix ''.part1.rar'' (lower name)
             then (let prfx = take (length name - length ''.part1.rar'') name
                   in sort_key name_of (path_glob (prfx @ ''.part*.rar'') fs))
             else [first])"

text \<open>
  \<^verbatim>\<open>
  def migrate_audio_if_needed(game_folder: Path, version_from, version_to):
      try:
          if version_to is None:
              return False
          major, minor, _ = map(int, version_to.split("."))
      except:
          return False
      if (major, minor) < (3, 6):
          return False
      old = game_folder / "StreamingAssets" / "Audio" / "GeneratedSoundBanks" / "Windows"
      new = game_folder / "StreamingAssets" / "AudioAssets"
      if not old.exists():
          return False
      ...
      log.info("Audio migration completed.")
      return True
  \<close>
  The lines left out move the tree under \<^verbatim>\<open>old\<close> to \<^verbatim>\<open>new\<close>; they are the parameter
  \<open>relocate_audio\<close>, which says whether an exception left them and which files they left.
\<close>

definition migrate_audio_if_needed ::
  "tools \<Rightarrow> path \<Rightarrow> string option \<Rightarrow> string option \<Rightarrow> world \<Rightarrow> bool outcome" where
  "migrate_audio_if_needed T game_folder version_from version_to w =
     (case version_to of
        None \<Rightarrow> (Inr False, w)
      | Some v \<Rightarrow>
          (case map py_int (split_on dot v) of
             [Some major, Some minor, Some patch] \<Rightarrow>
               if tuple_less (major, minor) (3, 6) then (Inr False, w)
               else if \<not> exists (files w)
                         (game_folder @ [''StreamingAssets'', ''Audio'', ''GeneratedSoundBanks'', ''Windows''])
               then (Inr False, w)
               else (let (raised, fs') = relocate_audio T game_folder (files w)
                     in if raised then (Inl OSError, w\<lparr>files := fs'\<rparr>)
                        else (Inr True, say INFO AudioMigrationCompleted (w\<lparr>files := fs'\<rparr>)))
           | _ \<Rightarrow> (Inr False, w)))"

text \<open>
  \<^verbatim>\<open>
  def process_logical_archive(archive_name: str, game_folder: Path) -> bool:
      patched = False
      from_v, to_v = parse_from_to_versions_from_name(archive_name)
      needs_migration = False
      if from_v and to_v:
          ...
      if needs_migration:
          migrated = migrate_audio_if_needed(game_folder, from_v, to_v)
          if not migrated:
              log.warning("Migration indicated but did not complete; ...")
      else:
          delete_files()
      if apply_hdiff():
          patched = True
      return patched
  \<close>
  The lines left out are \<open>needs_migration\<close> above.
\<close>

definition process_logical_archive :: "tools \<Rightarrow> string \<Rightarrow> path \<Rightarrow> world \<Rightarrow> bool outcome" where
  "process_logical_archive T archive_name game_folder w =
     (let (from_v, to_v) = parse_from_to_versions_from_name archive_name
      in case (if needs_migration archive_name
               then (case migrate_audio_if_needed T game_folder from_v to_v w of
                       (Inl e, w1) \<Rightarrow> (Inl e, w1)
                     | (Inr migrated, w1) \<Rightarrow>
                         (Inr (), if \<not> migrated then say WARNING MigrationIncomplete w1 else w1))
               else delete_files w) of
           (Inl e, w2) \<Rightarrow> (Inl e, w2)
         | (Inr u, w2) \<Rightarrow> apply_hdiff T w2)"

text \<open>
  \<^verbatim>\<open>
  def extract_multipart_and_process(first: Path, game_folder: Path) -> bool:
      logical = logical_name_from_first(first)
      try:
          log.info(f"Processing multipart archive: {first.name}")
          extract_with_7z(first)
      except Exception as e:
          log.warning(f"Failed to extract multipart {first}: {e}")
      parts = collect_parts_for_first(first)
      for p in parts:
          try:
              p.unlink()
          except:
              pass
      return process_logical_archive(logical, game_folder)
  \<close>
  \<open>extract_and_delete_parts\<close> is the function up to its last line.
\<close>

definition extract_and_delete_parts :: "tools \<Rightarrow> path \<Rightarrow> world \<Rightarrow> world" where
  "extract_and_delete_parts T first w =
     (let w1 = say INFO (ProcessingMultipart (name_of first)) w;
          w3 = (case extract_with_7z T first w1 of
                  (Inl e, w2) \<Rightarrow> say WARNING (FailedExtractMultipart first) w2
                | (Inr u, w2) \<Rightarrow> w2);
          parts = collect_parts_for_first first (files w3)
      in fold try_unlink parts w3)"

definition extract_multipart_and_process :: "tools \<Rightarrow> path \<Rightarrow> path \<Rightarrow> world \<Rightarrow> bool outcome" where
  "extract_multipart_and_process T first game_folder w =
     (let logical = logical_name_from_first (name_of first)
      in process_logical_archive T logical game_folder (extract_and_delete_parts T first w))"

text \<open>
  \<^verbatim>\<open>
  def extract_all_multipart_and_process(game_folder: Path) -> bool:
      patched_any = False
      multipart_firsts = get_multipart_first_parts()
      for first in multipart_firsts:
          try:
              if extract_multipart_and_process(first, game_folder):
                  patched_any = True
          except Exception as e:
              log.warning(f"Error processing multipart {first}: {e}")
      return patched_any
  \<close>
\<close>

fun multipart_loop :: "tools \<Rightarrow> path \<Rightarrow> path list \<Rightarrow> bool \<Rightarrow> world \<Rightarrow> bool \<times> world" where
  "multipart_loop T game_folder [] patched_any w = (patched_any, w)"
| "multipart_loop T game_folder (first # rest) patched_any w =
     (case extract_multipart_and_process T first game_folder w of
        (Inl e, w') \<Rightarrow>
          multipart_loop T game_folder rest patched_any (say WARNING (ErrorProcessingMultipart first) w')
      | (Inr b, w') \<Rightarrow> multipart_loop T game_folder rest (patched_any \<or> b) w')"

definition extract_all_multipart_and_process :: "tools \<Rightarrow> path \<Rightarrow> world \<Rightarrow> bool \<times> world" where
  "extract_all_multipart_and_process T game_folder w =
     multipart_loop T game_folder (get_multipart_first_parts (files w)) False w"

text \<open>
  \<^verbatim>\<open>
  def extract_single_archive(archive: Path):
      try:
          log.info(f"Processing archive: {archive.name}")
          extract_with_7z(archive)
      except Exception as e:
          log.warning(f"Failed to extract {archive}: {e}")
      try:
          archive.unlink()
      except:
          pass
  \<close>
\<close>

definition extract_single_archive :: "tools \<Rightarrow> path \<Rightarrow> world \<Rightarrow> world" where
  "extract_single_archive T archive w =
     (let w1 = say INFO (ProcessingArchive (name_of archive)) w;
          w3 = (case extract_with_7z T archive w1 of
                  (Inl e, w2) \<Rightarrow> say WARNING (FailedExtract archive) w2
                | (Inr u, w2) \<Rightarrow> w2)
      in try_unlink archive w3)"

section \<open>After the archives\<close>

text \<open>
  \<^verbatim>\<open>
  def detect_game_version_after_patch(game_folder: Path) -> str | None:
      settings_json = game_folder / "StreamingAssets" / "asb_settings.json"
      if settings_json.exists():
          try:
              data = json.loads(settings_json.read_text(encoding="utf-8"))
              variance = data.get("variance", "")
              match = re.search(r"(\d+\.\d+(?:\.\d+)?)", variance)
              if match:
                  return normalize_version(match.group(1))
          except:
              pass
      bin_ver = game_folder / "StreamingAssets" / "BinaryVersion.bytes"
      if bin_ver.exists():
          try:
              data = bin_ver.read_text(errors="ignore")
              match = re.search(r"(\d+\.\d+(?:\.\d+)?)", data)
              if match:
                  return normalize_version(match.group(1))
          except:
              pass
      version_info = game_folder / "version_info"
      if version_info.exists():
          ... the same ...
      log.warning("Game version could not be detected after patch.")
      return None
  \<close>
  \<open>json_variance\<close> is \<open>None\<close> where parsing or the lookup raises.
\<close>

definition find_version :: "string \<Rightarrow> string option" where
  "find_version text =
     (case re_search version_at text of
        Some (v, r) \<Rightarrow> Some (normalize_version v)
      | None \<Rightarrow> None)"

definition version_in_file :: "filesys \<Rightarrow> path \<Rightarrow> string option" where
  "version_in_file fs p =
     (if exists fs p
      then (case read_text fs p of None \<Rightarrow> None | Some data \<Rightarrow> find_version data)
      else None)"

definition detect_game_version_after_patch :: "tools \<Rightarrow> path \<Rightarrow> world \<Rightarrow> string option \<times> world" where
  "detect_game_version_after_patch T game_folder w =
     (let fs = files w;
          settings_json = game_folder @ [''StreamingAssets'', ''asb_settings.json''];
          from_settings =
            (if exists fs settings_json
             then (case read_text fs settings_json of
                     None \<Rightarrow> None
                   | Some text \<Rightarrow>
                       (case json_variance T text of
                          None \<Rightarrow> None
                        | Some variance \<Rightarrow> find_version variance))
             else None)
      in case from_settings of
           Some v \<Rightarrow> (Some v, w)
         | None \<Rightarrow>
             (case version_in_file fs (game_folder @ [''StreamingAssets'', ''BinaryVersion.bytes'']) of
                Some v \<Rightarrow> (Some v, w)
              | None \<Rightarrow>
                  (case version_in_file fs (game_folder @ [''version_info'']) of
                     Some v \<Rightarrow> (Some v, w)
                   | None \<Rightarrow> (None, say WARNING GameVersionNotDetected w))))"

text \<open>
  \<^verbatim>\<open>
  def write_config_ini():
      if GAME_VERSION is None:
          return
      content = ["[General]", "channel=1", "cps=hoyoverse",
                 f"game_version={GAME_VERSION}", "sub_channel=0", ""]
      Path("config.ini").write_text("\n".join(content), encoding="utf-8")
  \<close>
  The global \<^verbatim>\<open>GAME_VERSION\<close> is an argument.  Written without \<^verbatim>\<open>newline\<close>, each line feed
  becomes the line separator of Windows.
\<close>

definition config_ini_text :: "string \<Rightarrow> string" where
  "config_ini_text v =
     ''[General]'' @ [LF] @ ''channel=1'' @ [LF] @ ''cps=hoyoverse'' @ [LF]
     @ ''game_version='' @ v @ [LF] @ ''sub_channel=0'' @ [LF]"

definition write_config_ini :: "string option \<Rightarrow> world \<Rightarrow> unit outcome" where
  "write_config_ini game_version w =
     (case game_version of
        None \<Rightarrow> (Inr (), w)
      | Some v \<Rightarrow>
          (case write_text [''config.ini''] (py_replace [LF] [CR, LF] (config_ini_text v)) (files w) of
             None \<Rightarrow> (Inl OSError, w)
           | Some fs' \<Rightarrow> (Inr (), w\<lparr>files := fs'\<rparr>)))"

text \<open>
  \<^verbatim>\<open>
  def cleanup_aux_files(game_folder: Path):
      patterns = [...]
      for pat in patterns:
          for p in Path.cwd().rglob(pat):
              try: p.unlink()
              except: pass
      targets = [...]
      for target in targets:
          for found in game_folder.rglob(target):
              if found.is_dir():
                  try:
                      shutil.rmtree(found, ignore_errors=True)
                      log.info(f"Deleted directory tree (flex): {found}")
                  except: pass
  \<close>
\<close>

definition aux_patterns :: "string list" where
  "aux_patterns =
     [''*.py'', ''*.bat'', ''*.zip'', ''*.zip.*'', ''*.zip.001'', ''*.zip.002'',
      ''*.rar'', ''*.rar.*'', ''*.rar.001'', ''*.rar.002'',
      ''*.part1.rar'', ''*.part2.rar'', ''*.part*.rar'',
      ''*.7z'', ''*.7z.*'', ''*.7z.001'', ''*.7z.002'',
      ''hpatchz.exe'', ''hdiffz.exe'', ''7z.exe'',
      ''version.dll'', ''*.dmp'', ''*.bak'', ''*.txt'', ''*.log'']"

definition aux_targets :: "string list" where
  "aux_targets =
     [''SDKCaches'', ''webCaches'', ''kr_game_cache'', ''launcherDownload'',
      ''.quality'', ''quality'', ''CrashSightLog'', ''pipe_client'',
      ''TQM64'', ''wesight'']"

definition remove_found :: "path \<Rightarrow> world \<Rightarrow> world" where
  "remove_found found w =
     (if is_dir (files w) found
      then say INFO (DeletedTreeFlex found) (w\<lparr>files := rmtree found (files w)\<rparr>)
      else w)"

definition cleanup_aux_files :: "path \<Rightarrow> world \<Rightarrow> world" where
  "cleanup_aux_files game_folder w =
     (let w1 = fold (\<lambda>pat w'. fold try_unlink (rglob [] pat (files w')) w') aux_patterns w
      in fold (\<lambda>target w'. fold remove_found (rglob game_folder target (files w')) w')
           aux_targets w1)"

text \<open>
  \<^verbatim>\<open>
  def cleanup_empty_dirs(game_folder: Path):
      while True:
          removed = False
          for path in sorted(game_folder.rglob("*"), reverse=True):
              if path.is_dir():
                  try:
                      path.rmdir()
                      removed = True
                  except:
                      pass
          if not removed:
              break
  \<close>
  \<open>rmdir_step\<close> is the body of the inner loop, \<open>empty_dirs_pass\<close> one round of the outer
  one.  A round that removed something has shortened the list of entries, which is why the
  loop ends.
\<close>

definition rmdir_step :: "path \<Rightarrow> filesys \<times> bool \<Rightarrow> filesys \<times> bool" where
  "rmdir_step p st =
     (case st of
        (fs, removed) \<Rightarrow>
          if is_dir fs p
          then (case rmdir p fs of Some fs' \<Rightarrow> (fs', True) | None \<Rightarrow> (fs, removed))
          else (fs, removed))"

definition empty_dirs_pass :: "path \<Rightarrow> filesys \<Rightarrow> filesys \<times> bool" where
  "empty_dirs_pass game_folder fs =
     fold rmdir_step (rev (sort_key fold_case (rev (rglob game_folder ''*'' fs)))) (fs, False)"

function cleanup_empty_dirs_files :: "path \<Rightarrow> filesys \<Rightarrow> filesys" where
  "cleanup_empty_dirs_files game_folder fs =
     (case empty_dirs_pass game_folder fs of
        (fs', removed) \<Rightarrow> if removed then cleanup_empty_dirs_files game_folder fs' else fs')"
  by pat_completeness auto
termination
proof (relation "measure (\<lambda>(game_folder, fs). length fs)")
  show "wf (measure (\<lambda>(game_folder, fs). length fs))"
    by simp
next
  fix game_folder :: path and fs fs' :: filesys and removed :: bool
  assume pass: "(fs', removed) = empty_dirs_pass game_folder fs" and removed: removed
  have rmdir_shorter: "length gs' < length gs" if "rmdir p gs = Some gs'" for p gs gs'
  proof -
    from that have l: "lookup gs p = Some Dir" and gs': "gs' = remove_entry p gs"
      by (auto simp: rmdir_def split: if_splits)
    from l obtain q n where "(q, n) \<in> set gs" "fold_case q = fold_case p"
      by (auto simp: lookup_def dest!: map_of_SomeD)
    then have "(q, n) \<in> set gs" "\<not> (case (q, n) of (q, n) \<Rightarrow> fold_case q \<noteq> fold_case p)"
      by simp_all
    then show ?thesis
      unfolding gs' remove_entry_def by (rule length_filter_less)
  qed
  have steps: "length gs' \<le> length gs \<and> (b' \<and> \<not> b \<longrightarrow> length gs' < length gs)"
    if "fold rmdir_step ps (gs, b) = (gs', b')" for ps gs b gs' b'
    using that
  proof (induction ps arbitrary: gs b)
    case Nil
    then show ?case by simp
  next
    case (Cons p ps)
    obtain gs1 b1 where s: "rmdir_step p (gs, b) = (gs1, b1)"
      by (cases "rmdir_step p (gs, b)")
    then have 1: "length gs1 \<le> length gs \<and> (b1 = b \<or> length gs1 < length gs)"
      by (auto simp: rmdir_step_def split: if_splits option.splits dest: rmdir_shorter)
    from Cons.prems s have "fold rmdir_step ps (gs1, b1) = (gs', b')"
      by simp
    from Cons.IH [OF this] 1 show ?case
      by auto
  qed
  have "length fs' < length fs"
    using steps [of _ fs False fs' removed] pass removed
    by (simp add: empty_dirs_pass_def)
  then show "((game_folder, fs'), (game_folder, fs)) \<in> measure (\<lambda>(game_folder, fs). length fs)"
    by simp
qed

definition cleanup_empty_dirs :: "path \<Rightarrow> world \<Rightarrow> world" where
  "cleanup_empty_dirs game_folder w = w\<lparr>files := cleanup_empty_dirs_files game_folder (files w)\<rparr>"

section \<open>The driver\<close>

text \<open>
  \<^verbatim>\<open>
  def main():
      global GAME_VERSION
      game_folder = detect_game_folder()
      check_tools()
      patch_done = False
      pending_delete_for_migration = False
      if extract_all_multipart_and_process(game_folder):
          patch_done = True
      candidates = sorted(glob.glob("*.zip") + glob.glob("*.7z") + glob.glob("*.rar"))
      filtered = []
      for name in candidates:
          if is_part_file_name(name):
              continue
          filtered.append(name)
      for archive_name in filtered:
          archive_path = Path(archive_name)
          extract_single_archive(archive_path)
          if process_logical_archive(archive_name, game_folder):
              patch_done = True
      if patch_done:
          GAME_VERSION = detect_game_version_after_patch(game_folder)
          if pending_delete_for_migration:
              delete_files()
          if GAME_VERSION:
              write_config_ini()
          cleanup_aux_files(game_folder)
      cleanup_empty_dirs(game_folder)
      log.info("Patching finished.")
  \<close>
  \<open>standalone_archives\<close> is the list \<^verbatim>\<open>filtered\<close>, \<open>single_loop\<close> the loop over it, and
  \<open>after_patch\<close> the block under \<^verbatim>\<open>if patch_done\<close>, in which
  \<^verbatim>\<open>pending_delete_for_migration\<close> is always false.  A name that \<^verbatim>\<open>glob\<close> lists is one
  component of a path.
\<close>

definition standalone_archives :: "filesys \<Rightarrow> string list" where
  "standalone_archives fs =
     (let candidates = sort (glob_glob ''*.zip'' fs @ glob_glob ''*.7z'' fs @ glob_glob ''*.rar'' fs)
      in filter (\<lambda>name. \<not> is_part_file_name name) candidates)"

fun single_loop :: "tools \<Rightarrow> path \<Rightarrow> string list \<Rightarrow> bool \<Rightarrow> world \<Rightarrow> bool outcome" where
  "single_loop T game_folder [] patch_done w = (Inr patch_done, w)"
| "single_loop T game_folder (archive_name # rest) patch_done w =
     (let w1 = extract_single_archive T [archive_name] w
      in case process_logical_archive T archive_name game_folder w1 of
           (Inl e, w2) \<Rightarrow> (Inl e, w2)
         | (Inr b, w2) \<Rightarrow> single_loop T game_folder rest (patch_done \<or> b) w2)"

definition after_patch :: "tools \<Rightarrow> path \<Rightarrow> world \<Rightarrow> unit outcome" where
  "after_patch T game_folder w =
     (let (game_version, w1) = detect_game_version_after_patch T game_folder w
      in case (if game_version \<noteq> None \<and> game_version \<noteq> Some []
               then write_config_ini game_version w1 else (Inr (), w1)) of
           (Inl e, w2) \<Rightarrow> (Inl e, w2)
         | (Inr u, w2) \<Rightarrow> (Inr (), cleanup_aux_files game_folder w2))"

definition main :: "tools \<Rightarrow> world \<Rightarrow> unit outcome" where
  "main T w =
     (case detect_game_folder w of
        (Inl e, w1) \<Rightarrow> (Inl e, w1)
      | (Inr game_folder, w1) \<Rightarrow>
          (case check_tools w1 of
             (Inl e, w2) \<Rightarrow> (Inl e, w2)
           | (Inr u, w2) \<Rightarrow>
               (let (multi, w3) = extract_all_multipart_and_process T game_folder w2
                in case single_loop T game_folder (standalone_archives (files w3)) multi w3 of
                     (Inl e, w4) \<Rightarrow> (Inl e, w4)
                   | (Inr patch_done, w4) \<Rightarrow>
                       (case (if patch_done then after_patch T game_folder w4 else (Inr (), w4)) of
                          (Inl e, w5) \<Rightarrow> (Inl e, w5)
                        | (Inr u', w5) \<Rightarrow>
                            (Inr (), say INFO PatchingFinished (cleanup_empty_dirs game_folder w5))))))"

section \<open>Sample values\<close>

text \<open>For the examples: external programs that succeed and leave the files alone, and a
  state with given files in which nothing has been logged or started.\<close>

definition quiet_tools :: tools where
  "quiet_tools =
     \<lparr>run_7z = (\<lambda>archive fs. (Exited 0, fs)),
      run_hpatchz = (\<lambda>original hdiff fs. (Exited 0, fs)),
      json_variance = (\<lambda>text. None),
      relocate_audio = (\<lambda>game_folder fs. (False, fs))\<rparr>"

definition start :: "filesys \<Rightarrow> world" where
  "start fs = \<lparr>files = fs, logged = [], calls = []\<rparr>"

section \<open>Manifest lines\<close>





definition with_separator :: "char \<Rightarrow> string \<Rightarrow> string" where
  "with_separator sep p = map (\<lambda>c. if c = CHR ''/'' then sep else c) p"

text \<open>A patch program that exits with status 1, and a tree with a diff manifest of two
  entries, both with their diff artifact; the first target is read-only.\<close>

definition failing_tools :: tools where
  "failing_tools = quiet_tools\<lparr>run_hpatchz := (\<lambda>original hdiff fs. (Exited 1, fs))\<rparr>"

definition hdiff_sample :: world where
  "hdiff_sample =
     start [(hdifffiles_txt, File (''data.bin'' @ [LF] @ ''other.bin'' @ [LF]) False False),
            ([''data.bin''], File ''old'' True False),
            ([''data.bin.hdiff''], File ''delta'' False False),
            ([''other.bin''], File ''old'' False False),
            ([''other.bin.hdiff''], File ''delta'' False False)]"





text \<open>A tree with an archive in three parts, the second of them read-only, and an archive
  of its own.\<close>

definition multipart_sample :: world where
  "multipart_sample =
     start [([''Update.zip.001''], File ''p1'' False False),
            ([''update.zip.002''], File ''p2'' True False),
            ([''update.zip.003''], File ''p3'' False False),
            ([''other.zip''], File ''o'' False False)]"

section \<open>Properties of the string helpers\<close>

text \<open>Lower case on the bits of a character: the upper-case letters are \<open>0x41\<close> to \<open>0x5A\<close>
  and \<open>0xC0\<close> to \<open>0xDE\<close> without \<open>0xD7\<close>, and adding 32 sets the bit of weight 32.\<close>

lemma lower_char_code [code]:
  "lower_char (Char b0 b1 b2 b3 b4 b5 b6 b7) =
     (if b6 \<and> \<not> b5 \<and>
         (if b7 then \<not> (b0 \<and> b1 \<and> b2 \<and> b4)
          else (b0 \<or> b1 \<or> b2 \<or> b3 \<or> b4) \<and> \<not> (b4 \<and> b3 \<and> (b2 \<or> (b1 \<and> b0))))
      then Char b0 b1 b2 b3 b4 True b6 b7
      else Char b0 b1 b2 b3 b4 b5 b6 b7)"
  by (cases b0; cases b1; cases b2; cases b3; cases b4; cases b5; cases b6; cases b7;
      simp add: lower_char_def char_of_def bit_Suc_0_iff)

lemma split_on_not_Nil: "split_on c s \<noteq> []"
  by (induction s) (auto split: list.splits)

lemma split_on_no_sep: "c \<notin> set s \<Longrightarrow> split_on c s = [s]"
  by (induction s) auto

lemma split_on_append:
  "c \<notin> set a \<Longrightarrow> split_on c (a @ c # r) = a # split_on c r"
  by (induction a) auto

lemma length_split_on: "length (split_on c s) = Suc (length (filter (\<lambda>x. x = c) s))"
  by (induction s) (auto split: list.splits)

section \<open>Properties of the version patterns\<close>

lemma not_digit_dot [simp]: "\<not> digit dot" "\<not> digit (CHR ''.'')" "\<not> digit (CHR ''_'')"
  by (simp_all add: digit_def dot_def less_eq_char_def)















section \<open>Version normalisation\<close>

text \<open>
  C8.  A two-component version string \<open>X.Y\<close> (\<open>X\<close> and \<open>Y\<close> numeric, hence free of dots)
  is normalised to \<open>X.Y.0\<close>; a string with three components \<open>X.Y.Z\<close> is returned as it is.
\<close>

theorem normalize_version_components:
  assumes "dot \<notin> set X" and "dot \<notin> set Y"
  shows "normalize_version (X @ ''.'' @ Y) = X @ ''.'' @ Y @ ''.0''
       \<and> normalize_version (X @ ''.'' @ Y @ ''.'' @ Z) = X @ ''.'' @ Y @ ''.'' @ Z"
proof
  have "split_on dot (X @ dot # Y) = [X, Y]"
    using assms by (simp add: split_on_append split_on_no_sep)
  then show "normalize_version (X @ ''.'' @ Y) = X @ ''.'' @ Y @ ''.0''"
    by (simp add: normalize_version_def dot_def)
next
  have "length (split_on dot (X @ dot # Y @ dot # Z)) \<ge> 3"
    by (simp add: length_split_on)
  then show "normalize_version (X @ ''.'' @ Y @ ''.'' @ Z) = X @ ''.'' @ Y @ ''.'' @ Z"
    by (simp add: normalize_version_def dot_def Let_def)
qed

theorem normalize_version_components_witness:
  "normalize_version ''3.6'' = ''3.6.0'' \<and> normalize_version ''3.5.2'' = ''3.5.2''"
  using normalize_version_components [of "''3''" "''6''" "''2''"]
    normalize_version_components [of "''3''" "''5''" "''2''"]
  by (simp add: dot_def)

section \<open>The migration decision\<close>

lemma digits_val_samples [simp]:
  "digits_val ''3'' = 3" "digits_val ''5'' = 5" "digits_val ''6'' = 6"
  by (simp_all add: digits_val_def digit_val_def)



section \<open>Properties of the file system\<close>

lemma lookup_Nil [simp]: "lookup [] p = None"
  by (simp add: lookup_def)

lemma lookup_Cons:
  "lookup ((q, n) # fs) p = (if fold_case q = fold_case p then Some n else lookup fs p)"
  by (auto simp: lookup_def)

lemma lookup_map_entries:
  "lookup (map (\<lambda>(q, n). if fold_case q = k then (q, f n) else (q, n)) fs) p
     = (if fold_case p = k then map_option f (lookup fs p) else lookup fs p)"
  by (induction fs) (auto simp: lookup_Cons)

lemma lookup_filter:
  assumes "\<And>q q'. fold_case q = fold_case q' \<Longrightarrow> P q = P q'"
  shows "lookup (filter (\<lambda>(q, n). P q) fs) p = (if P p then lookup fs p else None)"
proof (induction fs)
  case Nil
  then show ?case by simp
next
  case (Cons a fs)
  obtain q n where a: "a = (q, n)" by (cases a)
  have "fold_case q = fold_case p \<Longrightarrow> P q = P p" by (rule assms)
  then show ?case using Cons by (simp add: a lookup_Cons)
qed

lemma lookup_remove_entry:
  "lookup (remove_entry p fs) q = (if fold_case q = fold_case p then None else lookup fs q)"
proof -
  have "lookup (filter (\<lambda>(q, n). fold_case q \<noteq> fold_case p) fs) q
      = (if fold_case q \<noteq> fold_case p then lookup fs q else None)"
    by (rule lookup_filter) simp
  then show ?thesis by (simp add: remove_entry_def)
qed

lemma lookup_chmod_writable:
  "lookup (chmod_writable p fs) q
     = (if fold_case q = fold_case p then map_option clear_readonly (lookup fs q) else lookup fs q)"
  unfolding chmod_writable_def
proof -
  have "(\<lambda>(q, n). if fold_case q = fold_case p then (q, clear_readonly n) else (q, n))
      = (\<lambda>(q, n). if fold_case q = fold_case p then (q, clear_readonly n) else (q, n))" ..
  show "lookup (map (\<lambda>(q, n). if fold_case q = fold_case p then (q, clear_readonly n) else (q, n)) fs) q =
    (if fold_case q = fold_case p then map_option clear_readonly (lookup fs q) else lookup fs q)"
    by (rule lookup_map_entries)
qed




section \<open>Properties of manifest normalisation\<close>





lemma wrapper_nonempty [simp]: "wrapper_open \<noteq> []" "wrapper_close \<noteq> []"
  by (simp_all add: wrapper_open_def wrapper_close_def)







lemma with_separator_append [simp]:
  "with_separator s (a @ b) = with_separator s a @ with_separator s b"
  by (simp add: with_separator_def)











section \<open>The diff manifest\<close>

lemma hdiff_loop_append:
  "hdiff_loop T (xs @ ys) patched w =
     (case hdiff_loop T xs patched w of
        (Inl e, w') \<Rightarrow> (Inl e, w')
      | (Inr b, w') \<Rightarrow> hdiff_loop T ys b w')"
  by (induction xs arbitrary: patched w) (auto split: prod.splits sum.splits)

lemma hdiff_entry_fails:
  assumes "strip line \<noteq> []"
    and "exists (files w) (parse_path (strip line @ ''.hdiff''))"
    and "run_hpatchz T (parse_path (strip line)) (parse_path (strip line @ ''.hdiff''))
           (files (ensure_writable (parse_path (strip line)) w)) = (Exited n, fs2)"
    and "n \<noteq> 0"
  shows "hdiff_entry T line w =
           (Inl (CalledProcessError n),
            \<lparr>files = fs2,
             logged = logged w @ [(ERROR, HpatchzFailed (strip line))],
             calls = calls w @ [CallHpatchz (parse_path (strip line))
                                  (parse_path (strip line @ ''.hdiff''))]\<rparr>)"
proof -
  have [simp]: "logged (ensure_writable p w) = logged w" "calls (ensure_writable p w) = calls w" for p
    by (auto simp: ensure_writable_def split: option.splits node.splits)
  show ?thesis
    using assms by (simp add: hdiff_entry_def Let_def say_def)
qed

text \<open>
  C3.  While \<^verbatim>\<open>apply_hdiff\<close> works through the diff manifest, let the entries before \<open>line\<close>
  have gone through without an exception, and let the patch program exit with a status
  other than 0 on \<open>line\<close>.  Then \<^verbatim>\<open>apply_hdiff\<close> ends with the exception
  \<^verbatim>\<open>CalledProcessError\<close> and returns no value; the failure is the last line logged, as an
  error; and the state it leaves is the state right after that run of the patch program:
  the program is started for no entry after \<open>line\<close>, whatever the remaining entries \<open>rest\<close>
  are.
\<close>

theorem hdiff_failure_is_fatal:
  assumes "exists (files w) hdifffiles_txt"
    and "replace_text_in_file hdifffiles_txt w = (Inr (), w0)"
    and "read_text (files w0) hdifffiles_txt = Some body"
    and "splitlines body = before @ line # rest"
    and "hdiff_loop T before False w0 = (Inr patched, w1)"
    and "strip line \<noteq> []"
    and "exists (files w1) (parse_path (strip line @ ''.hdiff''))"
    and "run_hpatchz T (parse_path (strip line)) (parse_path (strip line @ ''.hdiff''))
           (files (ensure_writable (parse_path (strip line)) w1)) = (Exited n, fs2)"
    and "n \<noteq> 0"
  shows "apply_hdiff T w =
           (Inl (CalledProcessError n),
            \<lparr>files = fs2,
             logged = logged w1 @ [(ERROR, HpatchzFailed (strip line))],
             calls = calls w1 @ [CallHpatchz (parse_path (strip line))
                                   (parse_path (strip line @ ''.hdiff''))]\<rparr>)"
proof -
  have "hdiff_loop T (before @ line # rest) False w0 =
           (Inl (CalledProcessError n),
            \<lparr>files = fs2,
             logged = logged w1 @ [(ERROR, HpatchzFailed (strip line))],
             calls = calls w1 @ [CallHpatchz (parse_path (strip line))
                                   (parse_path (strip line @ ''.hdiff''))]\<rparr>)"
    using assms(5) hdiff_entry_fails [OF assms(6-9)]
    by (simp add: hdiff_loop_append)
  then show ?thesis
    using assms(1-4) by (simp add: apply_hdiff_def)
qed

theorem hdiff_failure_is_fatal_witness:
  "apply_hdiff failing_tools hdiff_sample =
     (Inl (CalledProcessError 1),
      \<lparr>files = files (ensure_writable [''data.bin''] hdiff_sample),
       logged = logged hdiff_sample @ [(ERROR, HpatchzFailed (strip ''data.bin''))],
       calls = calls hdiff_sample @ [CallHpatchz (parse_path (strip ''data.bin''))
                                   (parse_path (strip ''data.bin'' @ ''.hdiff''))]\<rparr>)"
  by (rule hdiff_failure_is_fatal [where ?w0.0 = hdiff_sample and before = "[]"
        and rest = "[''other.bin'']" and body = "''data.bin'' @ [LF] @ ''other.bin'' @ [LF]"
        and patched = False]; code_simp)



lemma logged_try_unlink [simp]: "logged (try_unlink p w) = logged w"
  and calls_try_unlink [simp]: "calls (try_unlink p w) = calls w"
  by (auto simp: try_unlink_def split: option.splits)

lemma logged_ensure_writable [simp]: "logged (ensure_writable p w) = logged w"
  and calls_ensure_writable [simp]: "calls (ensure_writable p w) = calls w"
  by (auto simp: ensure_writable_def split: option.splits node.splits)

lemma split_seps_not_Nil [simp]: "split_seps s \<noteq> []"
  by (induction s) (auto split: list.splits)







section \<open>Properties of making writable and removing\<close>

lemma clear_readonly_idem [simp]: "clear_readonly (clear_readonly n) = clear_readonly n"
  by (cases n) (simp_all add: clear_readonly_def)

lemma fold_chmod_writable:
  "fold chmod_writable ps fs =
     map (\<lambda>(q, n). if fold_case q \<in> fold_case ` set ps then (q, clear_readonly n) else (q, n)) fs"
proof (induction ps arbitrary: fs)
  case Nil
  show ?case by (simp add: case_prod_beta)
next
  case (Cons p ps)
  show ?case
    unfolding fold_simps Cons.IH
    by (auto simp: chmod_writable_def)
qed

lemma wild_match_star [simp]: "wild_match ''*'' s"
  by (induction s) auto

lemma fnmatch_star [simp]: "fnmatch ''*'' s"
  by (simp add: fnmatch_def lower_def lower_char_def)

lemma below_Nil [simp]: "below [] q"
  by (simp add: below_def fold_case_def)

lemma fold_case_Nil [simp]: "fold_case [] = []" "fold_case q = [] \<longleftrightarrow> q = []"
  by (simp_all add: fold_case_def)

lemma below_refl [simp]: "below p p"
  by (simp add: below_def)

lemma strictly_below_iff: "strictly_below p q \<longleftrightarrow> below p q \<and> fold_case q \<noteq> fold_case p"
  by (auto simp: strictly_below_def below_def strict_prefix_def)

lemma files_make_writable_dir:
  "exists (files w) p \<Longrightarrow> \<not> is_file (files w) p \<Longrightarrow>
     files (make_writable_recursive p w)
       = map (\<lambda>(q, n). if below p q then (q, clear_readonly n) else (q, n)) (files w)"
proof -
  assume a: "exists (files w) p" "\<not> is_file (files w) p"
  have "chmod_writable p (fold chmod_writable (rglob p ''*'' (files w)) (files w))
      = map (\<lambda>(q, n). if below p q then (q, clear_readonly n) else (q, n)) (files w)"
    unfolding fold_chmod_writable chmod_writable_def map_map
  proof (rule map_cong [OF refl])
    fix x assume x: "x \<in> set (files w)"
    obtain q n where [simp]: "x = (q, n)" by (cases x)
    have "fold_case q \<in> fold_case ` set (rglob p ''*'' (files w)) \<longleftrightarrow> strictly_below p q"
      using x by (force simp: rglob_def strictly_below_def)
    then show "((\<lambda>(q, n). if fold_case q = fold_case p then (q, clear_readonly n) else (q, n)) \<circ>
          (\<lambda>(q, n). if fold_case q \<in> fold_case ` set (rglob p ''*'' (files w)) then (q, clear_readonly n)
                    else (q, n))) x
        = (case x of (q, n) \<Rightarrow> if below p q then (q, clear_readonly n) else (q, n))"
      by (auto simp: strictly_below_iff below_def)
  qed
  then show ?thesis
    using a by (simp add: make_writable_recursive_def)
qed


lemma files_make_writable_file:
  "exists (files w) p \<Longrightarrow> is_file (files w) p \<Longrightarrow>
     files (make_writable_recursive p w) = chmod_writable p (files w)"
  by (simp add: make_writable_recursive_def)

lemma files_make_writable_missing:
  "\<not> exists (files w) p \<Longrightarrow> make_writable_recursive p w = w"
  by (simp add: make_writable_recursive_def)

lemma logged_make_writable [simp]: "logged (make_writable_recursive p w) = logged w"
  and calls_make_writable [simp]: "calls (make_writable_recursive p w) = calls w"
  by (simp_all add: make_writable_recursive_def)

lemma below_fold_case: "fold_case q = fold_case q' \<Longrightarrow> below p q = below p q'"
  by (simp add: below_def)

lemma lookup_map_if:
  assumes "\<And>q q'. fold_case q = fold_case q' \<Longrightarrow> P q = P q'"
  shows "lookup (map (\<lambda>(q, n). if P q then (q, f n) else (q, n)) fs) p
           = (if P p then map_option f (lookup fs p) else lookup fs p)"
proof (induction fs)
  case Nil
  then show ?case by simp
next
  case (Cons a fs)
  obtain q n where a: "a = (q, n)" by (cases a)
  have "fold_case q = fold_case p \<Longrightarrow> P q = P p" by (rule assms)
  then show ?case using Cons by (auto simp: a lookup_Cons)
qed

lemma lookup_make_writable:
  "lookup (files (make_writable_recursive p w)) q =
     (if exists (files w) p \<and> (if is_file (files w) p then fold_case q = fold_case p else below p q)
      then map_option clear_readonly (lookup (files w) q) else lookup (files w) q)"
proof (cases "exists (files w) p")
  case False
  then show ?thesis by (simp add: files_make_writable_missing)
next
  case True
  show ?thesis
  proof (cases "is_file (files w) p")
    case f: True
    show ?thesis
      using True f by (simp add: files_make_writable_file lookup_chmod_writable)
  next
    case f: False
    have "lookup (map (\<lambda>(q, n). if below p q then (q, clear_readonly n) else (q, n)) (files w)) q
        = (if below p q then map_option clear_readonly (lookup (files w) q) else lookup (files w) q)"
      by (rule lookup_map_if) (rule below_fold_case)
    then show ?thesis
      using True f by (simp add: files_make_writable_dir)
  qed
qed

lemma clear_readonly_eq_Dir [simp]: "clear_readonly z = Dir \<longleftrightarrow> z = Dir"
  by (cases z) (simp_all add: clear_readonly_def)

lemma clear_readonly_Dir [simp]:
  "map_option clear_readonly x = Some Dir \<longleftrightarrow> x = Some Dir"
  "map_option clear_readonly x = Some (File c r h) \<longleftrightarrow> r = False \<and> (\<exists>r'. x = Some (File c r' h))"
  by (cases x; cases "the x"; auto simp: clear_readonly_def)+

lemma exists_make_writable [simp]:
  "exists (files (make_writable_recursive p w)) q = exists (files w) q"
  by (auto simp: exists_def lookup_make_writable)

lemma is_file_make_writable [simp]:
  "is_file (files (make_writable_recursive p w)) q = is_file (files w) q"
  by (auto simp: is_file_def lookup_make_writable clear_readonly_def split: option.splits node.splits)

lemma is_dir_make_writable [simp]:
  "is_dir (files (make_writable_recursive p w)) q = is_dir (files w) q"
  by (auto simp: is_dir_def lookup_make_writable)

lemma stays_fold_case: "fold_case q = fold_case q' \<Longrightarrow> stays fs q = stays fs q'"
  by (simp add: stays_def below_def)


section \<open>The delete manifest\<close>






lemma files_say [simp]: "files (say l m w) = files w"
  and logged_say [simp]: "logged (say l m w) = logged w @ [(l, m)]"
  and calls_say [simp]: "calls (say l m w) = calls w"
  by (simp_all add: say_def)






lemma exists_remove_entry [simp]: "p \<noteq> [] \<Longrightarrow> \<not> exists (remove_entry p fs) p"
  by (simp add: exists_def lookup_remove_entry)





lemma delete_txt_not_Nil [simp]: "delete_txt \<noteq> []"
  by (simp add: delete_txt_def)





section \<open>An empty line in the delete manifest\<close>

lemma held_file_clear_readonly [simp]: "held_file (clear_readonly n) = held_file n"
  by (cases n) (simp_all add: held_file_def clear_readonly_def)

lemma undeletable_clear_readonly [simp]: "undeletable (clear_readonly n) = held_file n"
  by (cases n) (simp_all add: held_file_def clear_readonly_def undeletable_def)

lemma exists_Nil [simp]: "exists fs []" and is_file_Nil [simp]: "\<not> is_file fs []"
  and is_dir_Nil [simp]: "is_dir fs []"
  by (simp_all add: exists_def is_file_def is_dir_def)

















section \<open>Properties of the part patterns\<close>

lemma lower_char_idem [simp]: "lower_char (lower_char c) = lower_char c"
  by (cases c) (simp add: lower_char_code)

lemma lower_idem [simp]: "lower (lower s) = lower s"
  by (simp add: lower_def)

lemma lower_append [simp]: "lower (a @ b) = lower a @ lower b"
  by (simp add: lower_def)

lemma wild_prefix:
  "\<forall>c\<in>set l. c \<noteq> CHR ''*'' \<and> c \<noteq> CHR ''?'' \<Longrightarrow> wild_match (l @ ''*'') s = prefix l s"
proof (induction l arbitrary: s)
  case Nil
  then show ?case by simp
next
  case (Cons c l)
  then show ?case by (cases s) auto
qed

lemma re_found_here: "m s \<Longrightarrow> re_found m s"
  by (cases s) (simp_all add: re_found_def)

lemma re_found_suffix: "m t \<Longrightarrow> re_found m (pre @ t)"
proof (induction pre)
  case Nil
  then show ?case by (simp add: re_found_here)
next
  case (Cons c pre)
  then show ?case by (auto simp: re_found_def split: option.splits)
qed

lemma dot_star_None: "(\<And>u. suffix u t \<Longrightarrow> m u = None) \<Longrightarrow> dot_star m t = None"
proof (induction t)
  case Nil
  then show ?case by simp
next
  case (Cons c t)
  have "dot_star m t = None"
    by (rule Cons.IH) (simp add: Cons.prems suffix_Cons)
  moreover have "m (c # t) = None"
    by (rule Cons.prems) simp
  ultimately show ?case by auto
qed

lemma dot_star_last:
  assumes "LF \<notin> set base" and "m (c # t) = Some e" and "\<And>u. suffix u t \<Longrightarrow> m u = None"
  shows "dot_star m (base @ c # t) = Some (base, e)"
  using assms(1)
proof (induction base)
  case Nil
  have "dot_star m t = None" using assms(3) by (rule dot_star_None)
  then show ?case using assms(2) by auto
next
  case (Cons b base)
  then show ?case by auto
qed


lemma ext_at_None: "u = [] \<or> hd u \<noteq> dot \<Longrightarrow> ext_at u = None"
  by (cases u) (auto simp: ext_at_def dot_def)

lemma ext_at_number: "d \<in> {CHR ''0'', CHR ''1''} \<Longrightarrow> ext_at (dot # d # r) = None"
  by (auto simp: ext_at_def dot_def)

lemma ext_at_ext:
  "ext \<in> {''7z'', ''zip'', ''rar''} \<Longrightarrow> ext_at (dot # ext @ r) = Some r"
  by (auto simp: ext_at_def dot_def)

lemma first_number_at_zeros:
  "first_number_at (dot # replicate k (CHR ''0'') @ ''1'')"
proof -
  have "dropWhile (\<lambda>x. x = CHR ''0'') (replicate k (CHR ''0'') @ ''1'') = ''1''"
    by (induction k) simp_all
  then show ?thesis by (simp add: first_number_at_def at_end_def)
qed

text \<open>Inside \<open>ext.0...01\<close> the pattern for the extension matches nowhere.\<close>

lemma no_ext_in_tail:
  assumes "ext \<in> {''7z'', ''zip'', ''rar''}"
    and "suffix u (ext @ dot # replicate k (CHR ''0'') @ ''1'')"
  shows "ext_at u = None"
proof -
  let ?z = "replicate k (CHR ''0'') @ ''1''"
  have z: "set ?z \<subseteq> {CHR ''0'', CHR ''1''}" by auto
  from assms(2) consider "suffix u ?z" | "u = dot # ?z" | e where "u = e @ dot # ?z" "e \<noteq> []" "suffix e ext"
    by (auto simp: suffix_append suffix_Cons)
  then show ?thesis
  proof cases
    case 1
    then have "set u \<subseteq> {CHR ''0'', CHR ''1''}" using z by (meson set_mono_suffix subset_trans)
    then have "u = [] \<or> hd u \<noteq> dot" by (cases u) (auto simp: dot_def)
    then show ?thesis by (rule ext_at_None)
  next
    case 2
    have "hd ?z \<in> {CHR ''0'', CHR ''1''}" by (cases k) auto
    then obtain d r where "?z = d # r" "d \<in> {CHR ''0'', CHR ''1''}"
      by (cases ?z) auto
    then show ?thesis using 2 ext_at_number [of d r] by simp
  next
    case 3
    then have "hd u \<in> set ext"
      by (cases e) (auto dest: set_mono_suffix)
    then have "hd u \<noteq> dot" using assms(1) by (auto simp: dot_def)
    then show ?thesis by (simp add: ext_at_None)
  qed
qed

lemma first_part_group_shape:
  assumes "ext \<in> {''7z'', ''zip'', ''rar''}" and "LF \<notin> set base"
  shows "first_part_group (base @ ''.'' @ ext @ ''.'' @ replicate k (CHR ''0'') @ ''1'')
           = Some (base @ ''.'' @ ext)"
proof -
  let ?r = "dot # replicate k (CHR ''0'') @ ''1''"
  let ?m = "\<lambda>t. case ext_at t of None \<Rightarrow> None
                 | Some r \<Rightarrow> if first_number_at r then Some (take (length t - length r) t) else None"
  have 1: "?m (dot # ext @ ?r) = Some (dot # ext)"
    using assms(1) by (simp add: ext_at_ext first_number_at_zeros)
  have 2: "?m u = None" if "suffix u (ext @ ?r)" for u
    using no_ext_in_tail [OF assms(1) that] by simp
  have "dot_star ?m (base @ dot # ext @ ?r) = Some (base, dot # ext)"
    using assms(2) 1 2 by (rule dot_star_last)
  then show ?thesis
    by (simp add: first_part_group_def dot_def)
qed

end
